theory Spec2Isabelle
  imports Main "HOL-Library.Sublist" "HOL-Library.Log_Nat"
begin

section \<open>Data model of HealthCompanion.py\<close>

text \<open>
  The script keeps two entries in the framework's session store: \<open>profile\<close>, a dictionary
  with the five keys age, weight, height, goal and activity, and \<open>chat_history\<close>, a list of
  (role, message) pairs. The goal and the activity level only ever hold one of the literal
  options of their select boxes, so they are enumerations with their texts.
\<close>

datatype goal = Fat_loss | Muscle_gain | Maintenance

datatype activity = Low | Moderate | High

fun goal_text :: "goal \<Rightarrow> string" where
  "goal_text Fat_loss = ''Fat loss''"
| "goal_text Muscle_gain = ''Muscle gain''"
| "goal_text Maintenance = ''Maintenance''"

fun activity_text :: "activity \<Rightarrow> string" where
  "activity_text Low = ''Low''"
| "activity_text Moderate = ''Moderate''"
| "activity_text High = ''High''"

definition goal_options :: "goal list" where
  "goal_options = [Fat_loss, Muscle_gain, Maintenance]"

definition activity_options :: "activity list" where
  "activity_options = [Low, Moderate, High]"

record profile =
  age :: int
  weight :: int
  height :: int
  goal :: goal
  activity :: activity

type_synonym turn = "string \<times> string"

text \<open>An exception is identified with its message, the text of \<open>str(e)\<close>.\<close>

datatype exn = Exn string

fun str_exn :: "exn \<Rightarrow> string" where
  "str_exn (Exn msg) = msg"

definition ZeroDivisionError :: exn where
  "ZeroDivisionError = Exn ''float division by zero''"

datatype image = Image "nat list"

text \<open>What \<open>model.generate_content\<close> is called with: a text, or a text with an image.\<close>

datatype content = Text string | Parts string image

text \<open>
  The model provider is outside the program. A call either raises or yields the text of
  the response (\<open>response.text\<close>); \<open>Inl\<close> is the raised exception.
\<close>

type_synonym gateway = "content \<Rightarrow> exn + string"

text \<open>What the script renders, in order.\<close>

datatype element =
    Error string
  | Success string
  | Markdown string
  | Metric string rat
  | Picture image string
  | Chat_message string "element list"

text \<open>
  The session store between two runs of the script: a key is absent (\<open>None\<close>) until the
  script has set it.
\<close>

record store =
  stored_chat_history :: "turn list option"
  stored_profile :: "profile option"

text \<open>
  The state of one run of the script: the two session entries, what has been rendered,
  the calls made to the model, and the exception that ended the run, if one did.
\<close>

record run_state =
  chat_history :: "turn list"
  profile :: profile
  ui :: "element list"
  calls :: "content list"
  crashed :: "exn option"

text \<open>
  What the widgets hold in one run. A number input or select box that the user has not
  touched holds \<open>None\<close> and returns its default; a button is \<open>True\<close> in the run its click
  triggers; the uploader holds the uploaded file, identified with what \<open>Image.open\<close> makes
  of it; the chat input returns the submitted text or \<open>None\<close>.
\<close>

record inputs =
  age_w :: "int option"
  weight_w :: "int option"
  height_w :: "int option"
  goal_w :: "goal option"
  activity_w :: "activity option"
  update_clicked :: bool
  plan_clicked :: bool
  uploaded :: "(exn + image) option"
  analyze_clicked :: bool
  user_input :: "string option"

section \<open>Python's text of integers and of the profile dictionary\<close>

definition digit_char :: "nat \<Rightarrow> char" where
  "digit_char d = ''0123456789'' ! d"

fun str_nat :: "nat \<Rightarrow> string" where
  "str_nat n = (if n < 10 then [digit_char n] else str_nat (n div 10) @ [digit_char (n mod 10)])"

declare str_nat.simps [simp del]

definition str_int :: "int \<Rightarrow> string" where
  "str_int i = (if i < 0 then ''-'' @ str_nat (nat (- i)) else str_nat (nat i))"

text \<open>\<open>str\<close> of the profile dictionary, keys in insertion order, strings in single quotes.\<close>

definition str_profile :: "profile \<Rightarrow> string" where
  "str_profile p =
     ''{'age': '' @ str_int (age p) @
     '', 'weight': '' @ str_int (weight p) @
     '', 'height': '' @ str_int (height p) @
     '', 'goal': '' @ [CHR 0x27] @ goal_text (goal p) @ [CHR 0x27] @
     '', 'activity': '' @ [CHR 0x27] @ activity_text (activity p) @ [CHR 0x27] @ ''}''"

section \<open>Binary64 arithmetic of the BMI\<close>

text \<open>
  Python's \<open>float\<close> is IEEE binary64. A finite double is a rational; an operation returns
  the exact result rounded to 53 significant bits, ties to even. The exponent range is
  not modelled (no overflow, no subnormals): the BMI of a profile stays far inside it.
\<close>

definition rhe :: "rat \<Rightarrow> int" where
  "rhe x = (let f = \<lfloor>x\<rfloor>; r = x - of_int f
            in if r < 1 / 2 then f else if 1 / 2 < r then f + 1
               else if even f then f else f + 1)"

text \<open>The binary exponent \<open>\<lfloor>log\<^sub>2 \<bar>x\<bar>\<rfloor>\<close> of a nonzero rational.\<close>

definition expo :: "rat \<Rightarrow> int" where
  "expo x = (if 1 \<le> \<bar>x\<bar> then int (floorlog 2 (nat \<lfloor>\<bar>x\<bar>\<rfloor>)) - 1
             else - int (floorlog 2 (nat (\<lceil>1 / \<bar>x\<bar>\<rceil> - 1))))"

definition fl :: "rat \<Rightarrow> rat" where
  "fl x = (if x = 0 then 0
           else let s = 2 powi (expo x - 52) in of_int (rhe (x / s)) * s)"


text \<open>\<open>int / int\<close>: the correctly rounded quotient, or ZeroDivisionError.\<close>

definition int_truediv :: "int \<Rightarrow> int \<Rightarrow> exn + rat" where
  "int_truediv a b = (if b = 0 then Inl ZeroDivisionError else Inr (fl (of_int a / of_int b)))"

text \<open>\<open>x ** 2\<close> on a float: the C library's \<open>pow\<close>, taken as correctly rounded.\<close>

definition float_pow2 :: "rat \<Rightarrow> rat" where
  "float_pow2 x = fl (x * x)"

text \<open>\<open>int / float\<close>: the integer is converted to a float, then divided.\<close>

definition int_float_div :: "int \<Rightarrow> rat \<Rightarrow> exn + rat" where
  "int_float_div a y = (if y = 0 then Inl ZeroDivisionError else Inr (fl (fl (of_int a) / y)))"

text \<open>
  \<open>round(x, 1)\<close>: the exact value of the double rounded to one decimal, ties to even.
  The result is the double nearest to that decimal, which the metric prints as the
  decimal itself; the model keeps the decimal.
\<close>

definition round1 :: "rat \<Rightarrow> rat" where
  "round1 x = of_int (rhe (x * 10)) / 10"

text \<open>Line 94: \<open>bmi = weight / ((height/100)**2)\<close>.\<close>

definition bmi :: "int \<Rightarrow> int \<Rightarrow> exn + rat" where
  "bmi w h = (case int_truediv h 100 of
                Inl e \<Rightarrow> Inl e
              | Inr m \<Rightarrow> int_float_div w (float_pow2 m))"

section \<open>The script\<close>

subsection \<open>Session state (lines 59 to 69)\<close>

definition default_profile :: profile where
  "default_profile = \<lparr>age = 25, weight = 70, height = 170, goal = Fat_loss, activity = Moderate\<rparr>"

definition init_session :: "store \<Rightarrow> run_state" where
  "init_session st =
     \<lparr>chat_history = (case stored_chat_history st of None \<Rightarrow> [] | Some h \<Rightarrow> h),
      profile = (case stored_profile st of None \<Rightarrow> default_profile | Some p \<Rightarrow> p),
      ui = [], calls = [], crashed = None\<rparr>"

subsection \<open>Sidebar (lines 73 to 95)\<close>

definition number_input :: "int \<Rightarrow> int \<Rightarrow> int \<Rightarrow> int option \<Rightarrow> int" where
  "number_input min_value max_value val entry = (case entry of None \<Rightarrow> val | Some v \<Rightarrow> v)"

definition selectbox :: "'a list \<Rightarrow> nat \<Rightarrow> 'a option \<Rightarrow> 'a" where
  "selectbox options index chosen = (case chosen of None \<Rightarrow> options ! index | Some v \<Rightarrow> v)"

definition update_profile :: "int \<Rightarrow> int \<Rightarrow> int \<Rightarrow> goal \<Rightarrow> activity \<Rightarrow> run_state \<Rightarrow> run_state" where
  "update_profile a w h g act c =
     c\<lparr>profile := \<lparr>age = a, weight = w, height = h, goal = g, activity = act\<rparr>,
       ui := ui c @ [Success ''Profile Updated!'']\<rparr>"

definition sidebar :: "inputs \<Rightarrow> run_state \<Rightarrow> run_state" where
  "sidebar inp c =
     (let a = number_input 10 100 (age (profile c)) (age_w inp);
          w = number_input 30 250 (weight (profile c)) (weight_w inp);
          h = number_input 100 250 (height (profile c)) (height_w inp);
          g = selectbox goal_options 0 (goal_w inp);
          act = selectbox activity_options 1 (activity_w inp);
          c1 = (if update_clicked inp then update_profile a w h g act c else c)
      in case bmi w h of
           Inl e \<Rightarrow> c1\<lparr>crashed := Some e\<rparr>
         | Inr b \<Rightarrow> c1\<lparr>ui := ui c1 @ [Metric ''Your BMI'' (round1 b)]\<rparr>)"

subsection \<open>Meal planner (lines 103 to 123)\<close>

definition meal_plan_prompt :: "profile \<Rightarrow> string" where
  "meal_plan_prompt p =
     ''\<newline>            Create a high-quality 7-day meal plan.'' @
     ''\<newline>            User Profile: '' @ str_profile p @
     ''\<newline>'' @
     ''\<newline>            Please provide:'' @
     ''\<newline>            - Daily calorie targets'' @
     ''\<newline>            - Macronutrient breakdown (P/C/F)'' @
     ''\<newline>            - Specific meals for Breakfast, Lunch, Dinner, and Snacks'' @
     ''\<newline>            - A consolidated grocery list'' @
     ''\<newline>            - Quick prep tips for the week'' @
     ''\<newline>            ''"

definition meal_planner :: "gateway \<Rightarrow> inputs \<Rightarrow> run_state \<Rightarrow> run_state" where
  "meal_planner gen inp c =
     (if plan_clicked inp then
        (let prompt = meal_plan_prompt (profile c);
             c1 = c\<lparr>calls := calls c @ [Text prompt]\<rparr>
         in case gen (Text prompt) of
              Inr text \<Rightarrow> c1\<lparr>ui := ui c1 @ [Markdown text]\<rparr>
            | Inl e \<Rightarrow> c1\<lparr>ui := ui c1 @ [Error (''Error generating plan: '' @ str_exn e)]\<rparr>)
      else c)"

subsection \<open>Food scanner (lines 127 to 146)\<close>

definition food_prompt :: string where
  "food_prompt = ''Analyze this food image. Provide estimated calories, macros, a health rating (1-10), and portion advice.''"

definition food_scanner :: "gateway \<Rightarrow> inputs \<Rightarrow> run_state \<Rightarrow> run_state" where
  "food_scanner gen inp c =
     (case uploaded inp of
        None \<Rightarrow> c
      | Some (Inl e) \<Rightarrow> c\<lparr>crashed := Some e\<rparr>
      | Some (Inr img) \<Rightarrow>
          (let c1 = c\<lparr>ui := ui c @ [Picture img ''Uploaded Image'']\<rparr>
           in if analyze_clicked inp then
                (let c2 = c1\<lparr>calls := calls c1 @ [Parts food_prompt img]\<rparr>
                 in case gen (Parts food_prompt img) of
                      Inr text \<Rightarrow> c2\<lparr>ui := ui c2 @ [Markdown text]\<rparr>
                    | Inl e \<Rightarrow> c2\<lparr>ui := ui c2 @ [Error (''Error analyzing image: '' @ str_exn e)]\<rparr>)
              else c1))"

subsection \<open>AI coach chat (lines 150 to 177)\<close>

definition show_turn :: "turn \<Rightarrow> element" where
  "show_turn t = Chat_message (if fst t = ''You'' then ''user'' else ''assistant'') [Markdown (snd t)]"

definition full_prompt :: "profile \<Rightarrow> string \<Rightarrow> string" where
  "full_prompt p msg =
     (let profile_context = ''User Profile: '' @ str_profile p @ ''. ''
      in profile_context @ ''\<newline>User Question: '' @ msg)"

definition chat_submit :: "gateway \<Rightarrow> string \<Rightarrow> run_state \<Rightarrow> run_state" where
  "chat_submit gen msg c =
     (let c1 = c\<lparr>chat_history := chat_history c @ [(''You'', msg)],
                 ui := ui c @ [Chat_message ''user'' [Markdown msg]]\<rparr>;
          prompt = full_prompt (profile c1) msg;
          c2 = c1\<lparr>calls := calls c1 @ [Text prompt]\<rparr>
      in case gen (Text prompt) of
           Inr text \<Rightarrow>
             c2\<lparr>ui := ui c2 @ [Chat_message ''assistant'' [Markdown text]],
                chat_history := chat_history c2 @ [(''Coach'', text)]\<rparr>
         | Inl e \<Rightarrow>
             c2\<lparr>ui := ui c2 @ [Chat_message ''assistant'' [Error (''Error: '' @ str_exn e)]]\<rparr>)"

definition ai_coach :: "gateway \<Rightarrow> inputs \<Rightarrow> run_state \<Rightarrow> run_state" where
  "ai_coach gen inp c =
     (let c1 = c\<lparr>ui := ui c @ map show_turn (chat_history c)\<rparr>
      in case user_input inp of
           None \<Rightarrow> c1
         | Some msg \<Rightarrow> if msg = [] then c1 else chat_submit gen msg c1)"

subsection \<open>One run of the script\<close>

text \<open>
  What a run leaves behind: the session store, what was rendered, the calls made to the
  model, the key the model library was configured with, and the exception that ended the
  run early, if one did.
\<close>

record outcome =
  session :: store
  rendered :: "element list"
  model_calls :: "content list"
  configured :: "string option"
  uncaught :: "exn option"

definition finish :: "string \<Rightarrow> run_state \<Rightarrow> outcome" where
  "finish key c =
     \<lparr>session = \<lparr>stored_chat_history = Some (chat_history c), stored_profile = Some (profile c)\<rparr>,
      rendered = ui c, model_calls = calls c, configured = Some key, uncaught = crashed c\<rparr>"

text \<open>
  \<open>api_key\<close> is what \<open>os.getenv("GOOGLE_API_KEY")\<close> returns. An uncaught exception ends the
  run where it is raised; what was stored before stays stored.
\<close>

definition app :: "string option \<Rightarrow> gateway \<Rightarrow> inputs \<Rightarrow> store \<Rightarrow> outcome" where
  "app api_key gen inp st =
     (case api_key of
        None \<Rightarrow> \<lparr>session = st, rendered = [Error ''API Key not found! Please check your .env file.''],
                 model_calls = [], configured = None, uncaught = None\<rparr>
      | Some key \<Rightarrow>
          if key = [] then
            \<lparr>session = st, rendered = [Error ''API Key not found! Please check your .env file.''],
             model_calls = [], configured = None, uncaught = None\<rparr>
          else
            (let c1 = sidebar inp (init_session st)
             in if crashed c1 \<noteq> None then finish key c1
                else (let c3 = food_scanner gen inp (meal_planner gen inp c1)
                      in if crashed c3 \<noteq> None then finish key c3
                         else finish key (ai_coach gen inp c3))))"

section \<open>Ranges of the widgets and example inputs\<close>



text \<open>A run in which the user touches nothing.\<close>

definition idle_inputs :: inputs where
  "idle_inputs = \<lparr>age_w = None, weight_w = None, height_w = None, goal_w = None,
     activity_w = None, update_clicked = False, plan_clicked = False, uploaded = None,
     analyze_clicked = False, user_input = None\<rparr>"

text \<open>A session with the default profile and one earlier exchange, at the start of a run.\<close>

definition example_state :: run_state where
  "example_state = \<lparr>chat_history = [(''You'', ''Hello''), (''Coach'', ''Hi there'')],
     profile = default_profile, ui = [], calls = [], crashed = None\<rparr>"

text \<open>A model that always answers the same text, and one whose every call fails.\<close>

definition fixed_gateway :: gateway where
  "fixed_gateway content = Inr ''PLAN_TEXT''"

definition failing_gateway :: gateway where
  "failing_gateway content = Inl (Exn ''network error'')"

section \<open>The prompts\<close>








lemma calls_chat_submit:
  "calls (chat_submit gen msg c) = calls c @ [Text (full_prompt (profile c) msg)]"
  by (simp add: chat_submit_def Let_def split: sum.split)

text \<open>
  C4. When a chat message is submitted, the one prompt sent to the model is the profile
  text as context followed by the submitted message, and nothing else: it is the same
  whatever the conversation log holds.
\<close>

theorem chat_prompt_is_profile_and_message:
  assumes "user_input inp = Some msg" and "msg \<noteq> []"
  shows "calls (ai_coach gen inp c) =
           calls c @ [Text (''User Profile: '' @ str_profile (profile c) @ ''. '' @
                            ''\<newline>User Question: '' @ msg)]
         \<and> calls (ai_coach gen inp (c\<lparr>chat_history := h\<rparr>)) = calls (ai_coach gen inp c)"
  using assms by (simp add: ai_coach_def Let_def calls_chat_submit full_prompt_def)

theorem chat_prompt_is_profile_and_message_witness:
  "user_input (idle_inputs\<lparr>user_input := Some ''What should I eat?''\<rparr>) = Some ''What should I eat?''
   \<and> ''What should I eat?'' \<noteq> []
   \<and> calls (ai_coach fixed_gateway (idle_inputs\<lparr>user_input := Some ''What should I eat?''\<rparr>) example_state) =
       [Text (''User Profile: {'age': 25, 'weight': 70, 'height': 170, 'goal': 'Fat loss', 'activity': 'Moderate'}. \<newline>User Question: What should I eat?'')]"
  using chat_prompt_is_profile_and_message
    [of "idle_inputs\<lparr>user_input := Some ''What should I eat?''\<rparr>" "''What should I eat?''"
        fixed_gateway example_state "[]"]
  by (simp add: idle_inputs_def example_state_def str_profile_def default_profile_def
      str_int_def str_nat.simps digit_char_def)

section \<open>The conversation log\<close>

lemma chat_submit_ok:
  "gen (Text (full_prompt (profile c) msg)) = Inr text \<Longrightarrow>
   chat_history (chat_submit gen msg c) = chat_history c @ [(''You'', msg), (''Coach'', text)]"
  by (simp add: chat_submit_def Let_def)

text \<open>
  C6. When a chat message is submitted and the model answers, the log after the run is
  the log before it followed by the user's turn and then the coach's turn with the
  model's text: these are its last two entries, and the earlier entries keep their order.
\<close>

theorem chat_success_appends_user_then_coach:
  assumes "user_input inp = Some msg" and "msg \<noteq> []"
    and "gen (Text (full_prompt (profile c) msg)) = Inr text"
  shows "chat_history (ai_coach gen inp c) = chat_history c @ [(''You'', msg), (''Coach'', text)]"
  using assms by (simp add: ai_coach_def Let_def chat_submit_ok)

theorem chat_success_appends_user_then_coach_witness:
  "user_input (idle_inputs\<lparr>user_input := Some ''What should I eat?''\<rparr>) = Some ''What should I eat?''
   \<and> ''What should I eat?'' \<noteq> []
   \<and> fixed_gateway (Text (full_prompt (profile example_state) ''What should I eat?'')) = Inr ''PLAN_TEXT''
   \<and> chat_history (ai_coach fixed_gateway (idle_inputs\<lparr>user_input := Some ''What should I eat?''\<rparr>) example_state) =
       [(''You'', ''Hello''), (''Coach'', ''Hi there''), (''You'', ''What should I eat?''), (''Coach'', ''PLAN_TEXT'')]"
  using chat_success_appends_user_then_coach
    [of "idle_inputs\<lparr>user_input := Some ''What should I eat?''\<rparr>" "''What should I eat?''"
        fixed_gateway example_state "''PLAN_TEXT''"]
  by (simp add: idle_inputs_def example_state_def fixed_gateway_def)

text \<open>
  C1, as stated, fails: with a model whose call raises, submitting a message to a log of
  two turns leaves a log of three turns that ends with the user's turn; the session state
  is not what it was before the action.
\<close>

theorem chat_failure_changes_log_counterexample:
  "failing_gateway (Text (full_prompt (profile example_state) ''What should I eat?'')) = Inl (Exn ''network error'')
   \<and> chat_history (ai_coach failing_gateway (idle_inputs\<lparr>user_input := Some ''What should I eat?''\<rparr>) example_state)
       = [(''You'', ''Hello''), (''Coach'', ''Hi there''), (''You'', ''What should I eat?'')]
   \<and> chat_history (ai_coach failing_gateway (idle_inputs\<lparr>user_input := Some ''What should I eat?''\<rparr>) example_state)
       \<noteq> chat_history example_state"
  by (simp add: ai_coach_def chat_submit_def Let_def idle_inputs_def example_state_def failing_gateway_def)

text \<open>
  C1, amended. When a chat message is submitted and the model call raises, the profile is
  unchanged and the log is the log before the action followed by the user's turn alone;
  neither a coach turn nor a failure marker is stored. The failure is shown in this run
  only, as an error element with the exception's text in the assistant's message.
\<close>

theorem chat_failure_keeps_user_turn:
  assumes "user_input inp = Some msg" and "msg \<noteq> []"
    and "gen (Text (full_prompt (profile c) msg)) = Inl e"
  shows "chat_history (ai_coach gen inp c) = chat_history c @ [(''You'', msg)]
         \<and> profile (ai_coach gen inp c) = profile c
         \<and> crashed (ai_coach gen inp c) = crashed c
         \<and> ui (ai_coach gen inp c) =
             ui c @ map show_turn (chat_history c) @
             [Chat_message ''user'' [Markdown msg],
              Chat_message ''assistant'' [Error (''Error: '' @ str_exn e)]]"
  using assms by (simp add: ai_coach_def chat_submit_def Let_def)

theorem chat_failure_keeps_user_turn_witness:
  "user_input (idle_inputs\<lparr>user_input := Some ''What should I eat?''\<rparr>) = Some ''What should I eat?''
   \<and> ''What should I eat?'' \<noteq> []
   \<and> failing_gateway (Text (full_prompt (profile example_state) ''What should I eat?'')) = Inl (Exn ''network error'')
   \<and> chat_history (ai_coach failing_gateway (idle_inputs\<lparr>user_input := Some ''What should I eat?''\<rparr>) example_state)
       = [(''You'', ''Hello''), (''Coach'', ''Hi there''), (''You'', ''What should I eat?'')]
   \<and> ui (ai_coach failing_gateway (idle_inputs\<lparr>user_input := Some ''What should I eat?''\<rparr>) example_state)
       = [Chat_message ''user'' [Markdown ''Hello''], Chat_message ''assistant'' [Markdown ''Hi there''],
          Chat_message ''user'' [Markdown ''What should I eat?''],
          Chat_message ''assistant'' [Error ''Error: network error'']]"
  using chat_failure_keeps_user_turn
    [of "idle_inputs\<lparr>user_input := Some ''What should I eat?''\<rparr>" "''What should I eat?''"
        failing_gateway example_state "Exn ''network error''"]
  by (simp add: idle_inputs_def example_state_def failing_gateway_def show_turn_def)

section \<open>The meal planner\<close>

text \<open>
  C7. When "Create 7-Day Plan" is pressed and the model call raises, the planner renders
  one error element with the exception's text and leaves the conversation log and the
  profile as they were.
\<close>

theorem plan_failure_shows_error_and_keeps_state:
  assumes "plan_clicked inp"
    and "gen (Text (meal_plan_prompt (profile c))) = Inl e"
  shows "ui (meal_planner gen inp c) = ui c @ [Error (''Error generating plan: '' @ str_exn e)]
         \<and> chat_history (meal_planner gen inp c) = chat_history c
         \<and> profile (meal_planner gen inp c) = profile c
         \<and> crashed (meal_planner gen inp c) = crashed c"
  using assms by (simp add: meal_planner_def Let_def)

theorem plan_failure_shows_error_and_keeps_state_witness:
  "plan_clicked (idle_inputs\<lparr>plan_clicked := True\<rparr>)
   \<and> failing_gateway (Text (meal_plan_prompt (profile example_state))) = Inl (Exn ''network error'')
   \<and> ui (meal_planner failing_gateway (idle_inputs\<lparr>plan_clicked := True\<rparr>) example_state)
        = [Error ''Error generating plan: network error'']
   \<and> chat_history (meal_planner failing_gateway (idle_inputs\<lparr>plan_clicked := True\<rparr>) example_state)
        = [(''You'', ''Hello''), (''Coach'', ''Hi there'')]
   \<and> profile (meal_planner failing_gateway (idle_inputs\<lparr>plan_clicked := True\<rparr>) example_state)
        = default_profile"
  using plan_failure_shows_error_and_keeps_state
    [of "idle_inputs\<lparr>plan_clicked := True\<rparr>" failing_gateway example_state "Exn ''network error''"]
  by (simp add: idle_inputs_def example_state_def failing_gateway_def)

section \<open>The sidebar\<close>







text \<open>
  C3, as stated, fails: the BMI is computed from what the weight and height widgets
  return, not from the stored profile. With the default profile stored and 80 entered in
  the weight widget but not saved, the stored weight and height are still 70 and 170,
  whose BMI is 24.2, and the metric shows 27.7.
\<close>

theorem bmi_not_from_stored_profile_counterexample:
  "weight (profile (sidebar (idle_inputs\<lparr>weight_w := Some 80\<rparr>) example_state)) = 70
   \<and> height (profile (sidebar (idle_inputs\<lparr>weight_w := Some 80\<rparr>) example_state)) = 170
   \<and> map_sum id round1 (bmi 70 170) = Inr (242 / 10)
   \<and> ui (sidebar (idle_inputs\<lparr>weight_w := Some 80\<rparr>) example_state) = [Metric ''Your BMI'' (277 / 10)]"
  by code_simp

text \<open>
  C3, amended. The BMI shown on each render is recomputed, each time it is displayed,
  from the values that the weight and height widgets return in that run. These are the
  stored profile's weight and height when "Update Profile" is pressed in that run (after
  the update) and when neither widget has been edited.
\<close>

theorem bmi_from_widget_values:
  assumes "bmi (number_input 30 250 (weight (profile c)) (weight_w inp))
               (number_input 100 250 (height (profile c)) (height_w inp)) = Inr b"
  shows "ui (sidebar inp c) =
           ui c @ (if update_clicked inp then [Success ''Profile Updated!''] else []) @
           [Metric ''Your BMI'' (round1 b)]
         \<and> (update_clicked inp \<longrightarrow>
              bmi (weight (profile (sidebar inp c))) (height (profile (sidebar inp c))) = Inr b)
         \<and> (weight_w inp = None \<and> height_w inp = None \<longrightarrow>
              bmi (weight (profile c)) (height (profile c)) = Inr b)"
  using assms by (auto simp: sidebar_def Let_def update_profile_def number_input_def)

theorem bmi_from_widget_values_witness:
  "bmi (number_input 30 250 (weight (profile example_state)) (weight_w (idle_inputs\<lparr>weight_w := Some 80\<rparr>)))
       (number_input 100 250 (height (profile example_state)) (height_w (idle_inputs\<lparr>weight_w := Some 80\<rparr>)))
     = Inr (7791694857042381 / 281474976710656)
   \<and> ui (sidebar (idle_inputs\<lparr>weight_w := Some 80\<rparr>) example_state) = [Metric ''Your BMI'' (277 / 10)]"
proof -
  have h: "bmi (number_input 30 250 (weight (profile example_state)) (weight_w (idle_inputs\<lparr>weight_w := Some 80\<rparr>)))
       (number_input 100 250 (height (profile example_state)) (height_w (idle_inputs\<lparr>weight_w := Some 80\<rparr>)))
     = Inr (7791694857042381 / 281474976710656)"
    by code_simp
  have r: "round1 (7791694857042381 / 281474976710656) = 277 / 10"
    by code_simp
  show ?thesis
    using h r bmi_from_widget_values [OF h]
    by (simp add: idle_inputs_def example_state_def)
qed

section \<open>The BMI\<close>


















text \<open>
  An exact tie: 48 kg at 160 cm is 18.75, and the metric shows 18.7.
\<close>

lemma bmi_tie_48_160:
  "map_sum id round1 (bmi 48 160) = Inr (187 / 10) \<and>
   (48 :: rat) / ((160 / 100) * (160 / 100)) = 1875 / 100"
  by code_simp



section \<open>Start-up\<close>

text \<open>
  C9. When the environment holds no API key (or an empty one), a run renders the one
  error message about the missing key and nothing else: the model library is not
  configured, no call is made to the model, nothing of the page is rendered and the
  session store is left as it was.
\<close>

theorem missing_key_stops_the_app:
  assumes "api_key = None \<or> api_key = Some []"
  shows "app api_key gen inp st =
           \<lparr>session = st, rendered = [Error ''API Key not found! Please check your .env file.''],
            model_calls = [], configured = None, uncaught = None\<rparr>"
  using assms by (auto simp: app_def)

theorem missing_key_stops_the_app_witness:
  "((None :: string option) = None \<or> (None :: string option) = Some [])
   \<and> app None fixed_gateway (idle_inputs\<lparr>plan_clicked := True, user_input := Some ''hi''\<rparr>)
        \<lparr>stored_chat_history = None, stored_profile = None\<rparr> =
      \<lparr>session = \<lparr>stored_chat_history = None, stored_profile = None\<rparr>,
       rendered = [Error ''API Key not found! Please check your .env file.''],
       model_calls = [], configured = None, uncaught = None\<rparr>"
  using missing_key_stops_the_app
    [of None fixed_gateway "idle_inputs\<lparr>plan_clicked := True, user_input := Some ''hi''\<rparr>"
        "\<lparr>stored_chat_history = None, stored_profile = None\<rparr>"]
  by simp

end
